theory Spec2Isabelle
  imports Complex_Main "HOL-Library.Word"
begin

unbundle bit_operations_syntax

section \<open>Values of the Python program\<close>

text \<open>
  The program is \<^verbatim>\<open>deskcnc_serial.py\<close>. Bytes are 8-bit words and a \<^verbatim>\<open>bytes\<close> object
  is a list of them. Python's unbounded \<^verbatim>\<open>int\<close> is \<^typ>\<open>int\<close>.

  A Python \<^verbatim>\<open>float\<close> is modelled as an exact rational or one of the three special
  values; the rounding of IEEE doubles is not modelled, so \<^verbatim>\<open>val / 0.015\<close> is the exact
  quotient by 15/1000.
\<close>

type_synonym byte = "8 word"
type_synonym bytes = "byte list"

datatype pyfloat = Fin rat | PInf | NInf | NaN

text \<open>The exceptions the program can raise. A \<^verbatim>\<open>serial.SerialException\<close> carries its message.\<close>

datatype exn =
    SerialException string
  | NotImplementedError
  | ZeroDivisionError
  | OverflowError
  | ValueError

fun float_neg :: "pyfloat \<Rightarrow> pyfloat" where
  "float_neg (Fin r) = Fin (- r)"
| "float_neg PInf = NInf"
| "float_neg NInf = PInf"
| "float_neg NaN = NaN"

fun float_add :: "pyfloat \<Rightarrow> pyfloat \<Rightarrow> pyfloat" where
  "float_add (Fin a) (Fin b) = Fin (a + b)"
| "float_add NaN _ = NaN"
| "float_add _ NaN = NaN"
| "float_add PInf NInf = NaN"
| "float_add NInf PInf = NaN"
| "float_add PInf _ = PInf"
| "float_add _ PInf = PInf"
| "float_add NInf _ = NInf"
| "float_add _ NInf = NInf"

text \<open>Python's \<^verbatim>\<open>a > b\<close> on floats: every comparison with NaN is false.\<close>

fun float_gt :: "pyfloat \<Rightarrow> pyfloat \<Rightarrow> bool" where
  "float_gt NaN _ = False"
| "float_gt _ NaN = False"
| "float_gt (Fin a) (Fin b) = (a > b)"
| "float_gt PInf PInf = False"
| "float_gt PInf _ = True"
| "float_gt NInf _ = False"
| "float_gt (Fin a) NInf = True"
| "float_gt (Fin a) PInf = False"

text \<open>Python's true division \<^verbatim>\<open>a / b\<close>: a zero divisor raises.\<close>

fun float_div :: "pyfloat \<Rightarrow> pyfloat \<Rightarrow> exn + pyfloat" where
  "float_div a (Fin b) =
     (if b = 0 then Inl ZeroDivisionError
      else case a of
        Fin x \<Rightarrow> Inr (Fin (x / b))
      | PInf \<Rightarrow> Inr (if b > 0 then PInf else NInf)
      | NInf \<Rightarrow> Inr (if b > 0 then NInf else PInf)
      | NaN \<Rightarrow> Inr NaN)"
| "float_div NaN _ = Inr NaN"
| "float_div _ NaN = Inr NaN"
| "float_div (Fin x) _ = Inr (Fin 0)"
| "float_div _ _ = Inr NaN"

text \<open>Python's \<^verbatim>\<open>int(x)\<close> on a float truncates toward zero; infinities and NaN raise.\<close>

definition trunc :: "rat \<Rightarrow> int" where
  "trunc r = (if r \<ge> 0 then \<lfloor>r\<rfloor> else \<lceil>r\<rceil>)"

fun py_int :: "pyfloat \<Rightarrow> exn + int" where
  "py_int (Fin r) = Inr (trunc r)"
| "py_int PInf = Inl OverflowError"
| "py_int NInf = Inl OverflowError"
| "py_int NaN = Inl ValueError"

text \<open>
  \<^verbatim>\<open>n.to_bytes(length, byteorder="little", signed=...)\<close>: the low byte first, two's
  complement when signed, \<^verbatim>\<open>OverflowError\<close> when \<open>n\<close> does not fit.
\<close>

fun le_bytes :: "nat \<Rightarrow> int \<Rightarrow> bytes" where
  "le_bytes 0 n = []"
| "le_bytes (Suc k) n = word_of_int n # le_bytes k (n div 256)"

definition to_bytes :: "int \<Rightarrow> nat \<Rightarrow> bool \<Rightarrow> exn + bytes" where
  "to_bytes n len is_signed =
     (if is_signed then
        (if - (2 ^ (8 * len - 1)) \<le> n \<and> n < 2 ^ (8 * len - 1)
         then Inr (le_bytes len n) else Inl OverflowError)
      else
        (if 0 \<le> n \<and> n < 2 ^ (8 * len)
         then Inr (le_bytes len n) else Inl OverflowError))"



text \<open>\<^verbatim>\<open>np.clip(a, a_min, a_max)\<close> is \<^verbatim>\<open>minimum(a_max, maximum(a, a_min))\<close>.\<close>

definition clip :: "int \<Rightarrow> int \<Rightarrow> int \<Rightarrow> int" where
  "clip a a_min a_max = min a_max (max a a_min)"

section \<open>Frame codec\<close>

definition COM_RESET :: bytes where
  "COM_RESET = [0x40, 0x52] @ replicate 14 0 @ [0x01, 0x01] @ replicate 5 0 @ [0x12]"

definition MIN_FEEDRATE :: int where
  "MIN_FEEDRATE = 62500"

definition MAX_FEEDRATE :: int where
  "MAX_FEEDRATE = 1250"

text \<open>\<^verbatim>\<open>checksum\<close>: XOR over all bytes of the command, returned as one byte.\<close>

definition checksum :: "bytes \<Rightarrow> bytes" where
  "checksum command = [foldl (\<lambda>cs b. cs XOR b) 0 command]"

text \<open>\<^verbatim>\<open>encodeValueMM\<close>: \<^verbatim>\<open>numsteps = int(val / 0.015)\<close>, then four signed bytes.\<close>

definition encodeValueMM :: "pyfloat \<Rightarrow> exn + bytes" where
  "encodeValueMM val =
     (case float_div val (Fin (15 / 1000)) of
        Inl e \<Rightarrow> Inl e
      | Inr q \<Rightarrow>
          (case py_int q of
             Inl e \<Rightarrow> Inl e
           | Inr numsteps \<Rightarrow> to_bytes numsteps 4 True))"

text \<open>
  \<^verbatim>\<open>encodeFeedrate\<close>: \<^verbatim>\<open>num = int(3378400 / val)\<close>, clipped to
  \<^verbatim>\<open>[MAX_FEEDRATE, MIN_FEEDRATE]\<close>, then two unsigned bytes.
\<close>

definition encodeFeedrate :: "pyfloat \<Rightarrow> exn + bytes" where
  "encodeFeedrate val =
     (case float_div (Fin 3378400) val of
        Inl e \<Rightarrow> Inl e
      | Inr q \<Rightarrow>
          (case py_int q of
             Inl e \<Rightarrow> Inl e
           | Inr num \<Rightarrow> to_bytes (clip num MAX_FEEDRATE MIN_FEEDRATE) 2 False))"

section \<open>The serial port\<close>

text \<open>
  \<^verbatim>\<open>DeskCNC\<close> owns one \<^verbatim>\<open>serial.Serial\<close> object. The record holds that object's state
  together with the environment it talks to:
  \<^item> \<open>ser_is_open\<close>: the port's \<^verbatim>\<open>is_open\<close> flag;
  \<^item> \<open>ser_opens\<close>: the outcome of each coming \<^verbatim>\<open>open()\<close> call (\<open>False\<close>: it raises);
    once the list is used up, \<^verbatim>\<open>open()\<close> succeeds;
  \<^item> \<open>ser_replies\<close>: what each coming \<^verbatim>\<open>read\<close> call finds, one entry a call, cut to the
    size asked for; once the list is used up every read times out and returns \<^verbatim>\<open>b''\<close>;
  \<^item> \<open>ser_written\<close>: every \<^verbatim>\<open>write\<close> so far, oldest first;
  \<^item> \<open>firmware_txt\<close>, \<open>firmware_response_txt\<close>: the bytes listed in the two files
    \<^verbatim>\<open>send_firmware\<close> reads (the files are not part of the sources).
  Sleeping and logging have no effect on this state and are left out.
\<close>

record DeskCNC =
  ser_is_open :: bool
  ser_opens :: "bool list"
  ser_replies :: "bytes list"
  ser_written :: "bytes list"
  firmware_txt :: bytes
  firmware_response_txt :: bytes

definition ser_close :: "DeskCNC \<Rightarrow> DeskCNC" where
  "ser_close d = d\<lparr>ser_is_open := False\<rparr>"

definition ser_open :: "DeskCNC \<Rightarrow> exn option \<times> DeskCNC" where
  "ser_open d =
     (if ser_is_open d then (Some (SerialException ''Port is already open.''), d)
      else case ser_opens d of
        [] \<Rightarrow> (None, d\<lparr>ser_is_open := True\<rparr>)
      | ok # rest \<Rightarrow>
          (if ok then (None, d\<lparr>ser_is_open := True, ser_opens := rest\<rparr>)
           else (Some (SerialException ''could not open port''), d\<lparr>ser_opens := rest\<rparr>)))"

definition ser_write :: "bytes \<Rightarrow> DeskCNC \<Rightarrow> exn option \<times> DeskCNC" where
  "ser_write data d =
     (if ser_is_open d then (None, d\<lparr>ser_written := ser_written d @ [data]\<rparr>)
      else (Some (SerialException ''Attempting to use a port that is not open''), d))"

definition ser_read :: "nat \<Rightarrow> DeskCNC \<Rightarrow> (exn + bytes) \<times> DeskCNC" where
  "ser_read sz d =
     (if ser_is_open d then
        (case ser_replies d of
           [] \<Rightarrow> (Inr [], d)
         | r # rest \<Rightarrow> (Inr (take sz r), d\<lparr>ser_replies := rest\<rparr>))
      else (Inl (SerialException ''Attempting to use a port that is not open''), d))"

text \<open>\<^verbatim>\<open>self._ser.read(self._ser.inWaiting())\<close>: everything that is waiting.\<close>

definition ser_read_waiting :: "DeskCNC \<Rightarrow> (exn + bytes) \<times> DeskCNC" where
  "ser_read_waiting d =
     (if ser_is_open d then
        (case ser_replies d of
           [] \<Rightarrow> (Inr [], d)
         | r # rest \<Rightarrow> (Inr r, d\<lparr>ser_replies := rest\<rparr>))
      else (Inl (SerialException ''Attempting to use a port that is not open''), d))"

section \<open>Transport session\<close>

text \<open>\<^verbatim>\<open>reset\<close>: true iff the last five bytes of the response are the expected ones.\<close>

definition reset :: "DeskCNC \<Rightarrow> (exn + bool) \<times> DeskCNC" where
  "reset d =
     (case ser_write COM_RESET d of
        (Some e, d1) \<Rightarrow> (Inl e, d1)
      | (None, d1) \<Rightarrow>
          (case ser_read_waiting d1 of
             (Inl e, d2) \<Rightarrow> (Inl e, d2)
           | (Inr response, d2) \<Rightarrow>
               (Inr (drop (length response - 5) response = [0xFB, 0x32, 0x32, 0x34, 0xF5]), d2)))"

text \<open>
  \<^verbatim>\<open>send_firmware\<close>: the loop \<^verbatim>\<open>for i in range(0, len(fw), 64)\<close> writes \<^verbatim>\<open>fw[i:i+64]\<close> and
  appends what is read back; the rest of \<open>fw\<close> is the loop's variable here.
\<close>

function send_chunks :: "bytes \<Rightarrow> bytes \<Rightarrow> DeskCNC \<Rightarrow> (exn + bytes) \<times> DeskCNC" where
  "send_chunks fw response d =
     (if fw = [] then (Inr response, d)
      else case ser_write (take 64 fw) d of
        (Some e, d1) \<Rightarrow> (Inl e, d1)
      | (None, d1) \<Rightarrow>
          (case ser_read_waiting d1 of
             (Inl e, d2) \<Rightarrow> (Inl e, d2)
           | (Inr r, d2) \<Rightarrow> send_chunks (drop 64 fw) (response @ r) d2))"
  by pat_completeness auto
termination
  by (relation "measure (\<lambda>(fw, response, d). length fw)") auto

declare send_chunks.simps [simp del]

definition send_firmware :: "DeskCNC \<Rightarrow> (exn + bool) \<times> DeskCNC" where
  "send_firmware d =
     (case send_chunks (firmware_txt d) [] d of
        (Inl e, d1) \<Rightarrow> (Inl e, d1)
      | (Inr response, d1) \<Rightarrow>
          (case ser_read_waiting d1 of
             (Inl e, d2) \<Rightarrow> (Inl e, d2)
           | (Inr r, d2) \<Rightarrow> (Inr (response @ r = firmware_response_txt d2), d2)))"

text \<open>
  The three loops of \<^verbatim>\<open>restart_device\<close> have no bound: \<open>None\<close> is a loop that never
  ends. \<open>reset_loop\<close> is \<^verbatim>\<open>while not self.reset(): pass\<close>, \<open>firmware_loop\<close> is
  \<^verbatim>\<open>while not self.send_firmware(): pass\<close>, and \<open>open_loop\<close> is
  \<^verbatim>\<open>while not self._ser.is_open\<close> with its \<^verbatim>\<open>try\<close>; an exception inside the \<^verbatim>\<open>try\<close> closes
  the port and goes round again.
\<close>

partial_function (option) reset_loop :: "DeskCNC \<Rightarrow> (exn option \<times> DeskCNC) option" where
  "reset_loop d =
     (case reset d of
        (Inl e, d1) \<Rightarrow> Some (Some e, d1)
      | (Inr ok, d1) \<Rightarrow> if ok then Some (None, d1) else reset_loop d1)"

partial_function (option) firmware_loop :: "DeskCNC \<Rightarrow> (exn option \<times> DeskCNC) option" where
  "firmware_loop d =
     (case send_firmware d of
        (Inl e, d1) \<Rightarrow> Some (Some e, d1)
      | (Inr ok, d1) \<Rightarrow> if ok then Some (None, d1) else firmware_loop d1)"

partial_function (option) open_loop :: "DeskCNC \<Rightarrow> DeskCNC option" where
  "open_loop d =
     (if ser_is_open d then Some d
      else case ser_open d of
        (Some e, d1) \<Rightarrow> open_loop (ser_close d1)
      | (None, d1) \<Rightarrow>
          (case reset_loop d1 of
             None \<Rightarrow> None
           | Some (Some e, d2) \<Rightarrow> open_loop (ser_close d2)
           | Some (None, d2) \<Rightarrow>
               (case firmware_loop d2 of
                  None \<Rightarrow> None
                | Some (Some e, d3) \<Rightarrow> open_loop (ser_close d3)
                | Some (None, d3) \<Rightarrow> open_loop d3)))"

declare reset_loop.simps [code]
declare firmware_loop.simps [code]
declare open_loop.simps [code]

definition restart_device :: "DeskCNC \<Rightarrow> DeskCNC option" where
  "restart_device d = open_loop (ser_close d)"

section \<open>Command executor\<close>

definition machineReady :: "DeskCNC \<Rightarrow> (exn + bool) \<times> DeskCNC" where
  "machineReady d =
     (let command = [0x40, 0x57] @ replicate 14 0 @ [0x01, 0x01] @ replicate 5 0;
          msg = command @ checksum command
      in case ser_write msg d of
        (Some e, d1) \<Rightarrow> (Inl e, d1)
      | (None, d1) \<Rightarrow>
          (case ser_read 18 d1 of
             (Inl e, d2) \<Rightarrow> (Inl e, d2)
           | (Inr response, d2) \<Rightarrow>
               (if response = [] then (Inl (SerialException ''device not responding''), d2)
                else (Inr (drop (length response - 1) response = [0xEC]), d2))))"

text \<open>\<^verbatim>\<open>while not self.machineReady(): time.sleep(0.001)\<close>\<close>

function wait_ready :: "DeskCNC \<Rightarrow> exn option \<times> DeskCNC" where
  "wait_ready d =
     (case machineReady d of
        (Inl e, d1) \<Rightarrow> (Some e, d1)
      | (Inr ready, d1) \<Rightarrow> if ready then (None, d1) else wait_ready d1)"
  by pat_completeness auto
termination
  by (relation "measure (\<lambda>d. length (ser_replies d))")
     (auto simp: machineReady_def ser_write_def ser_read_def Let_def
           split: if_splits list.splits)

declare wait_ready.simps [simp del]

function executeCommand :: "bytes \<Rightarrow> nat \<Rightarrow> DeskCNC \<Rightarrow> exn option \<times> DeskCNC" where
  "executeCommand command count d =
     (let msg = command @ checksum command
      in case ser_write msg d of
        (Some e, d1) \<Rightarrow> (Some e, d1)
      | (None, d1) \<Rightarrow>
          (case ser_read 1 d1 of
             (Inl e, d2) \<Rightarrow> (Some e, d2)
           | (Inr response, d2) \<Rightarrow>
               (case wait_ready d2 of
                  (Some e, d3) \<Rightarrow> (Some e, d3)
                | (None, d3) \<Rightarrow>
                    (if response \<noteq> [0x02] then
                       (if count < 2 then executeCommand command (count + 1) d3
                        else (Some (SerialException ''wrong response from device''), d3))
                     else (None, d3)))))"
  by pat_completeness auto
termination
  by (relation "measure (\<lambda>(command, count, d). 2 - count)") auto

declare executeCommand.simps [simp del]

definition G0 :: "pyfloat \<Rightarrow> pyfloat \<Rightarrow> pyfloat \<Rightarrow> DeskCNC \<Rightarrow> exn option \<times> DeskCNC" where
  "G0 posX posY posZ d =
     (case encodeValueMM (float_neg posX) of Inl e \<Rightarrow> (Some e, d) | Inr ex \<Rightarrow>
     (case encodeValueMM posY of Inl e \<Rightarrow> (Some e, d) | Inr ey \<Rightarrow>
     (case encodeValueMM posZ of Inl e \<Rightarrow> (Some e, d) | Inr ez \<Rightarrow>
     (case encodeFeedrate PInf of Inl e \<Rightarrow> (Some e, d) | Inr ef \<Rightarrow>
        executeCommand ([0x40, 0x4E] @ ex @ ey @ ez @ ef @ [0xDB, 0x00] @ replicate 5 0) 0 d))))"

definition G1 :: "pyfloat \<Rightarrow> pyfloat \<Rightarrow> pyfloat \<Rightarrow> pyfloat \<Rightarrow> DeskCNC \<Rightarrow> exn option \<times> DeskCNC" where
  "G1 posX posY posZ feedrate d =
     (case encodeValueMM (float_neg posX) of Inl e \<Rightarrow> (Some e, d) | Inr ex \<Rightarrow>
     (case encodeValueMM posY of Inl e \<Rightarrow> (Some e, d) | Inr ey \<Rightarrow>
     (case encodeValueMM posZ of Inl e \<Rightarrow> (Some e, d) | Inr ez \<Rightarrow>
     (case encodeFeedrate feedrate of Inl e \<Rightarrow> (Some e, d) | Inr ef \<Rightarrow>
        executeCommand ([0x40, 0x4D] @ ex @ ey @ ez @ ef @ replicate 7 0) 0 d))))"

definition spindle :: "bytes \<Rightarrow> DeskCNC \<Rightarrow> exn option \<times> DeskCNC" where
  "spindle state d =
     executeCommand ([0x40, 0x4F] @ replicate 14 0 @ [0x02] @ state @ replicate 5 0) 0 d"

definition M3 :: "DeskCNC \<Rightarrow> exn option \<times> DeskCNC" where
  "M3 d = spindle [0x01] d"

definition M4 :: "DeskCNC \<Rightarrow> exn option \<times> DeskCNC" where
  "M4 d = spindle [0x01] d"

definition M5 :: "DeskCNC \<Rightarrow> exn option \<times> DeskCNC" where
  "M5 d = spindle [0x00] d"

text \<open>
  \<^verbatim>\<open>G2\<close>, \<^verbatim>\<open>G3\<close>, \<^verbatim>\<open>G18\<close>, \<^verbatim>\<open>G19\<close> and \<^verbatim>\<open>G20\<close> only raise; \<^verbatim>\<open>G17\<close>, \<^verbatim>\<open>G21\<close>, \<^verbatim>\<open>G94\<close> and \<^verbatim>\<open>M9\<close>
  only log.
\<close>

definition not_implemented :: "DeskCNC \<Rightarrow> exn option \<times> DeskCNC" where
  "not_implemented d = (Some NotImplementedError, d)"

definition log_only :: "DeskCNC \<Rightarrow> exn option \<times> DeskCNC" where
  "log_only d = (None, d)"

section \<open>Parsed input\<close>

text \<open>
  The text of a line is parsed by the library \<^verbatim>\<open>pygcode\<close>, which is not part of the
  sources. The model starts from what the library hands over: a \<^verbatim>\<open>Word\<close> has a letter and
  a value; a gcode has its class, its own word and its parameter words
  (\<^verbatim>\<open>gcode.params.values()\<close>, in order); a line's block has the words that belong to no
  gcode (\<^verbatim>\<open>modal_params\<close>) and the gcodes. \<open>GCodeOther\<close> stands for every class the program
  does not name.

  Two things are the library's own and are taken as parameters: the execution order of
  each class, by which \<^verbatim>\<open>sorted\<close> orders the gcodes of a line, and the word of a gcode
  built without arguments, as \<^verbatim>\<open>self.mode()\<close> does.
\<close>

record Word =
  letter :: char
  word_value :: pyfloat

datatype gcode_type =
    GCodeFeedRate
  | GCodeRapidMove
  | GCodeLinearMove
  | GCodeArcMoveCW
  | GCodeArcMoveCCW
  | GCodeSelectXYPlane
  | GCodeSelectZXPlane
  | GCodeSelectYZPlane
  | GCodeUseInches
  | GCodeUseMillimeters
  | GCodeAbsoluteDistanceMode
  | GCodeIncrementalDistanceMode
  | GCodeUnitsPerMinuteMode
  | GCodeStartSpindleCW
  | GCodeStartSpindleCCW
  | GCodeStopSpindle
  | GCodeCoolantOff
  | GCodeOther

record GCode =
  gtype :: gcode_type
  gword :: Word
  params :: "Word list"

record Line =
  modal_params :: "Word list"
  gcodes :: "GCode list"

record pygcode =
  exec_order :: "gcode_type \<Rightarrow> int"
  default_word :: "gcode_type \<Rightarrow> Word"

definition instantiate :: "pygcode \<Rightarrow> gcode_type \<Rightarrow> GCode" where
  "instantiate lib t = \<lparr>gtype = t, gword = default_word lib t, params = []\<rparr>"

section \<open>Modal translator\<close>

record ModalGCodeParser =
  device :: DeskCNC
  posX :: pyfloat
  posY :: pyfloat
  posZ :: pyfloat
  feedrate :: pyfloat
  mode :: gcode_type
  offsetX :: pyfloat
  offsetY :: pyfloat
  offsetZ :: pyfloat
  spindleOn :: bool
  absolutepositionmode :: bool

text \<open>\<^verbatim>\<open>ModalGCodeParser.__init__\<close>; the input file is handed to \<open>run\<close> as its lines.\<close>

definition init :: "DeskCNC \<Rightarrow> ModalGCodeParser" where
  "init mill =
     \<lparr>device = mill, posX = Fin 0, posY = Fin 0, posZ = Fin 0, feedrate = Fin 300,
      mode = GCodeLinearMove, offsetX = Fin 0, offsetY = Fin 0, offsetZ = Fin 0,
      spindleOn = False, absolutepositionmode = True\<rparr>"

definition applyWord :: "Word \<Rightarrow> ModalGCodeParser \<Rightarrow> ModalGCodeParser" where
  "applyWord word s =
     (if absolutepositionmode s then
        (let s1 = (if letter word = CHR ''X'' then s\<lparr>posX := word_value word\<rparr> else s);
             s2 = (if letter word = CHR ''Y'' then s1\<lparr>posY := word_value word\<rparr> else s1);
             s3 = (if letter word = CHR ''Z'' then s2\<lparr>posZ := word_value word\<rparr> else s2)
         in if letter word = CHR ''F'' then s3\<lparr>feedrate := word_value word\<rparr> else s3)
      else
        (let s1 = (if letter word = CHR ''X''
                   then s\<lparr>posX := float_add (posX s) (word_value word)\<rparr> else s);
             s2 = (if letter word = CHR ''Y''
                   then s1\<lparr>posY := float_add (posY s1) (word_value word)\<rparr> else s1);
             s3 = (if letter word = CHR ''Z''
                   then s2\<lparr>posZ := float_add (posZ s2) (word_value word)\<rparr> else s2)
         in if letter word = CHR ''F'' then s3\<lparr>feedrate := word_value word\<rparr> else s3))"

text \<open>\<^verbatim>\<open>for word in ...: self.applyWord(word)\<close>\<close>

definition applyWords :: "Word list \<Rightarrow> ModalGCodeParser \<Rightarrow> ModalGCodeParser" where
  "applyWords ws s = foldl (\<lambda>s' w. applyWord w s') s ws"

text \<open>
  A call of a method of \<^verbatim>\<open>self.device\<close> followed by assignments to the translator's
  fields: when the call raises, the assignments after it are not made.
\<close>

definition call_device ::
  "(DeskCNC \<Rightarrow> exn option \<times> DeskCNC) \<Rightarrow> (ModalGCodeParser \<Rightarrow> ModalGCodeParser) \<Rightarrow>
   ModalGCodeParser \<Rightarrow> exn option \<times> ModalGCodeParser" where
  "call_device method after s =
     (case method (device s) of
        (Some e, d) \<Rightarrow> (Some e, s\<lparr>device := d\<rparr>)
      | (None, d) \<Rightarrow> (None, after (s\<lparr>device := d\<rparr>)))"

text \<open>The body of the \<^verbatim>\<open>try\<close> of \<^verbatim>\<open>executeGCode\<close>.\<close>

definition executeGCode_try :: "GCode \<Rightarrow> ModalGCodeParser \<Rightarrow> exn option \<times> ModalGCodeParser" where
  "executeGCode_try gcode s0 =
     (let s = applyWords (params gcode) s0; t = gtype gcode in
      if t = GCodeFeedRate then (None, applyWord (gword gcode) s)
      else if t = GCodeRapidMove then
        call_device
          (G0 (float_add (posX s) (offsetX s)) (float_add (posY s) (offsetY s))
              (float_add (posZ s) (offsetZ s)))
          (\<lambda>s'. s'\<lparr>mode := t\<rparr>) s
      else if t = GCodeLinearMove then
        (let s1 = (if float_gt (feedrate s) (Fin 1620) then s\<lparr>feedrate := Fin 1620\<rparr> else s)
         in call_device
              (G1 (float_add (posX s1) (offsetX s1)) (float_add (posY s1) (offsetY s1))
                  (float_add (posZ s1) (offsetZ s1)) (feedrate s1))
              (\<lambda>s'. s'\<lparr>mode := t\<rparr>) s1)
      else if t = GCodeArcMoveCW then call_device not_implemented (\<lambda>s'. s'\<lparr>mode := t\<rparr>) s
      else if t = GCodeArcMoveCCW then call_device not_implemented (\<lambda>s'. s'\<lparr>mode := t\<rparr>) s
      else if t = GCodeSelectXYPlane then call_device log_only id s
      else if t = GCodeSelectZXPlane then call_device not_implemented id s
      else if t = GCodeSelectYZPlane then call_device not_implemented id s
      else if t = GCodeUseInches then call_device not_implemented id s
      else if t = GCodeUseMillimeters then call_device log_only id s
      else if t = GCodeAbsoluteDistanceMode then (None, s\<lparr>absolutepositionmode := True\<rparr>)
      else if t = GCodeIncrementalDistanceMode then (None, s\<lparr>absolutepositionmode := False\<rparr>)
      else if t = GCodeUnitsPerMinuteMode then call_device log_only id s
      else if t = GCodeStartSpindleCW then call_device M3 (\<lambda>s'. s'\<lparr>spindleOn := True\<rparr>) s
      else if t = GCodeStartSpindleCCW then call_device M4 (\<lambda>s'. s'\<lparr>spindleOn := True\<rparr>) s
      else if t = GCodeStopSpindle then call_device M5 (\<lambda>s'. s'\<lparr>spindleOn := False\<rparr>) s
      else if t = GCodeCoolantOff then call_device log_only id s
      else (None, s))"

text \<open>
  The handler of \<^verbatim>\<open>except serial.SerialException\<close> up to, and without, its last line
  \<^verbatim>\<open>self.executeGCode(gcode)\<close>. \<open>None\<close>: \<^verbatim>\<open>restart_device\<close> never returns. An exception
  of \<^verbatim>\<open>self.device.M3()\<close> is raised inside the handler, so nothing catches it.
\<close>

definition executeGCode_except :: "ModalGCodeParser \<Rightarrow> (exn option \<times> ModalGCodeParser) option" where
  "executeGCode_except s =
     (case restart_device (device s) of
        None \<Rightarrow> None
      | Some d \<Rightarrow>
          (let s1 = s\<lparr>device := d, offsetX := float_neg (posX s),
                       offsetY := float_neg (posY s), offsetZ := float_neg (posZ s)\<rparr>
           in if spindleOn s1 then Some (call_device M3 id s1) else Some (None, s1)))"

fun is_SerialException :: "exn option \<Rightarrow> bool" where
  "is_SerialException (Some (SerialException err)) = True"
| "is_SerialException _ = False"

text \<open>
  \<^verbatim>\<open>executeGCode\<close> calls itself at the end of its handler, with no bound on how often:
  \<open>None\<close> is a call that never returns.
\<close>

partial_function (option) executeGCode ::
  "GCode \<Rightarrow> ModalGCodeParser \<Rightarrow> (exn option \<times> ModalGCodeParser) option" where
  "executeGCode gcode s =
     (case executeGCode_try gcode s of
        (r, s1) \<Rightarrow>
          if is_SerialException r then
            (case executeGCode_except s1 of
               None \<Rightarrow> None
             | Some (Some e, s2) \<Rightarrow> Some (Some e, s2)
             | Some (None, s2) \<Rightarrow> executeGCode gcode s2)
          else Some (r, s1))"

declare executeGCode.simps [code]

text \<open>\<^verbatim>\<open>for gcode in ...: self.executeGCode(gcode)\<close>\<close>

fun executeGCodes ::
  "GCode list \<Rightarrow> ModalGCodeParser \<Rightarrow> (exn option \<times> ModalGCodeParser) option" where
  "executeGCodes [] s = Some (None, s)"
| "executeGCodes (gcode # rest) s =
     (case executeGCode gcode s of
        None \<Rightarrow> None
      | Some (Some e, s1) \<Rightarrow> Some (Some e, s1)
      | Some (None, s1) \<Rightarrow> executeGCodes rest s1)"

definition parseLine ::
  "pygcode \<Rightarrow> Line \<Rightarrow> ModalGCodeParser \<Rightarrow> (exn option \<times> ModalGCodeParser) option" where
  "parseLine lib line s =
     (let s1 = applyWords (modal_params line) s in
      case executeGCodes (sort_key (\<lambda>g. exec_order lib (gtype g)) (gcodes line)) s1 of
        None \<Rightarrow> None
      | Some (Some e, s2) \<Rightarrow> Some (Some e, s2)
      | Some (None, s2) \<Rightarrow>
          if length (gcodes line) = 0 then executeGCode (instantiate lib (mode s2)) s2
          else Some (None, s2))"

text \<open>\<^verbatim>\<open>run\<close>: one \<^verbatim>\<open>parseLine\<close> for each line; an exception ends the loop.\<close>

fun run :: "pygcode \<Rightarrow> Line list \<Rightarrow> ModalGCodeParser \<Rightarrow> (exn option \<times> ModalGCodeParser) option" where
  "run lib [] s = Some (None, s)"
| "run lib (line # rest) s =
     (case parseLine lib line s of
        None \<Rightarrow> None
      | Some (Some e, s1) \<Rightarrow> Some (Some e, s1)
      | Some (None, s1) \<Rightarrow> run lib rest s1)"

section \<open>Notions used in the statements\<close>

text \<open>
  The frame \<^verbatim>\<open>machineReady\<close> sends, and the part of \<^verbatim>\<open>executeCommand\<close> before it looks
  at the acknowledgement: the frame is written, one byte is read, and the machine is
  polled until it is ready. \<open>executeCommand_unfold\<close> below shows that
  \<^verbatim>\<open>executeCommand\<close> is this followed by the check of the byte.
\<close>

definition status_query :: bytes where
  "status_query =
     (let command = [0x40, 0x57] @ replicate 14 0 @ [0x01, 0x01] @ replicate 5 0
      in command @ checksum command)"

definition send_and_wait :: "bytes \<Rightarrow> DeskCNC \<Rightarrow> (exn + bytes) \<times> DeskCNC" where
  "send_and_wait command d =
     (case ser_write (command @ checksum command) d of
        (Some e, d1) \<Rightarrow> (Inl e, d1)
      | (None, d1) \<Rightarrow>
          (case ser_read 1 d1 of
             (Inl e, d2) \<Rightarrow> (Inl e, d2)
           | (Inr response, d2) \<Rightarrow>
               (case wait_ready d2 of
                  (Some e, d3) \<Rightarrow> (Inl e, d3)
                | (None, d3) \<Rightarrow> (Inr response, d3))))"

text \<open>
  Concrete inputs for the examples: a device whose port is open and whose reads return the
  given replies, with a one-byte firmware image; library parameters.
\<close>

definition scripted_device :: "bytes list \<Rightarrow> DeskCNC" where
  "scripted_device replies =
     \<lparr>ser_is_open = True, ser_opens = [], ser_replies = replies, ser_written = [],
      firmware_txt = [0xAA], firmware_response_txt = [0x55]\<rparr>"

definition example_lib :: pygcode where
  "example_lib =
     \<lparr>exec_order = (\<lambda>t. 0),
      default_word = (\<lambda>t. \<lparr>letter = CHR ''G'', word_value = Fin 1\<rparr>)\<rparr>"

text \<open>The command of the spindle-on frame, as an example of a command.\<close>

definition example_command :: bytes where
  "example_command = [0x40, 0x4F] @ replicate 14 0 @ [0x02] @ [0x01] @ replicate 5 0"

text \<open>
  A linear move \<^verbatim>\<open>G1 X10\<close>, the five bytes that end a good answer to the reset frame,
  and three frames as they appear on the wire: the linear move that \<^verbatim>\<open>G1\<close> builds for
  X = 10 and for X = 0 (Y and Z zero, feed rate 300), and the spindle-on frame.
\<close>

definition example_move :: GCode where
  "example_move =
     \<lparr>gtype = GCodeLinearMove, gword = \<lparr>letter = CHR ''G'', word_value = Fin 1\<rparr>,
      params = [\<lparr>letter = CHR ''X'', word_value = Fin 10\<rparr>]\<rparr>"

definition reset_ok :: bytes where
  "reset_ok = [0xFB, 0x32, 0x32, 0x34, 0xF5]"

definition linear_frame_X10 :: bytes where
  "linear_frame_X10 =
     [0x40, 0x4D, 0x66, 0xFD, 0xFF, 0xFF, 0, 0, 0, 0, 0, 0, 0, 0, 0xFD, 0x2B,
      0, 0, 0, 0, 0, 0, 0, 0x40]"

definition linear_frame_X0 :: bytes where
  "linear_frame_X0 =
     [0x40, 0x4D, 0, 0, 0, 0, 0, 0, 0, 0, 0, 0, 0, 0, 0xFD, 0x2B,
      0, 0, 0, 0, 0, 0, 0, 0xDB]"

definition spindle_on_frame :: bytes where
  "spindle_on_frame = example_command @ checksum example_command"



section \<open>Lemmas on the codec\<close>








section \<open>Lemmas on the command executor\<close>

lemma executeCommand_unfold:
  "executeCommand command count d =
     (case send_and_wait command d of
        (Inl e, d') \<Rightarrow> (Some e, d')
      | (Inr response, d') \<Rightarrow>
          if response \<noteq> [0x02] then
            (if count < 2 then executeCommand command (count + 1) d'
             else (Some (SerialException ''wrong response from device''), d'))
          else (None, d'))"
  by (subst executeCommand.simps)
     (simp add: send_and_wait_def Let_def split: prod.splits option.splits sum.splits)

lemma machineReady_written:
  "ser_written (snd (machineReady d)) =
     (if ser_is_open d then ser_written d @ [status_query] else ser_written d)"
  by (simp add: machineReady_def status_query_def ser_write_def ser_read_def Let_def
           split: list.splits)

lemma machineReady_is_open: "ser_is_open (snd (machineReady d)) = ser_is_open d"
  by (simp add: machineReady_def ser_write_def ser_read_def Let_def split: list.splits)

lemma wait_ready_written:
  "\<exists>k. ser_written (snd (wait_ready d)) = ser_written d @ replicate k status_query"
proof (induction d rule: wait_ready.induct)
  case (1 d)
  obtain r d1 where m: "machineReady d = (r, d1)" by (cases "machineReady d")
  have w: "\<exists>j. ser_written d1 = ser_written d @ replicate j status_query"
  proof (cases "ser_is_open d")
    case True
    then have "ser_written d1 = ser_written d @ replicate 1 status_query"
      using machineReady_written [of d] m by simp
    then show ?thesis by blast
  next
    case False
    then have "ser_written d1 = ser_written d @ replicate 0 status_query"
      using machineReady_written [of d] m by simp
    then show ?thesis by blast
  qed
  then obtain j where j: "ser_written d1 = ser_written d @ replicate j status_query" ..
  show ?case
  proof (cases r)
    case (Inl e)
    then show ?thesis using m j by (subst wait_ready.simps) auto
  next
    case (Inr ready)
    show ?thesis
    proof (cases ready)
      case True
      then show ?thesis using m j Inr by (subst wait_ready.simps) auto
    next
      case False
      then obtain k where "ser_written (snd (wait_ready d1)) = ser_written d1 @ replicate k status_query"
        using "1.IH" [OF m [symmetric]] Inr by auto
      then have "ser_written (snd (wait_ready d1)) = ser_written d @ replicate (j + k) status_query"
        using j by (simp add: replicate_add)
      then show ?thesis using m Inr False by (subst wait_ready.simps) auto
    qed
  qed
qed

lemma wait_ready_is_open: "ser_is_open (snd (wait_ready d)) = ser_is_open d"
proof (induction d rule: wait_ready.induct)
  case (1 d)
  obtain r d1 where m: "machineReady d = (r, d1)" by (cases "machineReady d")
  have o: "ser_is_open d1 = ser_is_open d" using machineReady_is_open [of d] m by simp
  show ?case
  proof (cases r)
    case (Inl e)
    then show ?thesis using m o by (subst wait_ready.simps) auto
  next
    case (Inr ready)
    then show ?thesis using m o "1.IH" [OF m [symmetric]]
      by (subst wait_ready.simps) auto
  qed
qed

lemma send_and_wait_written:
  assumes "send_and_wait command d = (Inr a, d')"
  shows "\<exists>k. ser_written d' = ser_written d @ (command @ checksum command) # replicate k status_query"
proof -
  from assms have op: "ser_is_open d"
    by (auto simp: send_and_wait_def ser_write_def split: if_splits)
  define d1 where "d1 = d\<lparr>ser_written := ser_written d @ [command @ checksum command]\<rparr>"
  obtain r d2 where rd: "ser_read 1 d1 = (r, d2)" by (cases "ser_read 1 d1")
  have w2: "ser_written d2 = ser_written d1"
    using rd by (auto simp: ser_read_def split: if_splits list.splits)
  obtain k where k: "ser_written (snd (wait_ready d2)) = ser_written d2 @ replicate k status_query"
    using wait_ready_written by blast
  have "d' = snd (wait_ready d2)"
    using assms op rd
    by (auto simp: send_and_wait_def ser_write_def d1_def split: sum.splits prod.splits option.splits)
  then show ?thesis using k w2 by (auto simp: d1_def)
qed

lemma send_and_wait_is_open: "ser_is_open (snd (send_and_wait command d)) = ser_is_open d"
proof -
  have r: "\<And>n x. ser_is_open (snd (ser_read n x)) = ser_is_open x"
    by (auto simp: ser_read_def split: list.splits)
  obtain r1 d1 where 1: "ser_write (command @ checksum command) d = (r1, d1)" by force
  obtain r2 d2 where 2: "ser_read 1 d1 = (r2, d2)" by force
  obtain r3 d3 where 3: "wait_ready d2 = (r3, d3)" by force
  have "ser_is_open d1 = ser_is_open d" using 1 by (auto simp: ser_write_def split: if_splits)
  moreover have "ser_is_open d2 = ser_is_open d1" using r [of 1 d1] 2 by simp
  moreover have "ser_is_open d3 = ser_is_open d2" using wait_ready_is_open [of d2] 3 by simp
  ultimately show ?thesis using 1 2 3
    by (auto simp: send_and_wait_def split: sum.splits option.splits)
qed

lemma send_and_wait_written_open:
  assumes "ser_is_open d"
  shows "\<exists>k. ser_written (snd (send_and_wait command d)) =
              ser_written d @ (command @ checksum command) # replicate k status_query"
proof -
  define d1 where "d1 = d\<lparr>ser_written := ser_written d @ [command @ checksum command]\<rparr>"
  have w1: "ser_write (command @ checksum command) d = (None, d1)"
    using assms by (simp add: ser_write_def d1_def)
  obtain r d2 where rd: "ser_read 1 d1 = (r, d2)" by force
  have w2: "ser_written d2 = ser_written d1" and o2: "ser_is_open d2"
    using rd assms by (auto simp: ser_read_def d1_def split: if_splits list.splits)
  obtain a where r: "r = Inr a"
    using rd assms by (auto simp: ser_read_def d1_def split: if_splits list.splits)
  obtain k where k: "ser_written (snd (wait_ready d2)) = ser_written d2 @ replicate k status_query"
    using wait_ready_written by blast
  have "snd (send_and_wait command d) = snd (wait_ready d2)"
    using w1 rd r by (simp add: send_and_wait_def split: prod.splits option.splits)
  then show ?thesis using k w2 by (auto simp: d1_def)
qed

lemma executeCommand_written:
  "ser_is_open d \<Longrightarrow>
   \<exists>rest. ser_written (snd (executeCommand command count d)) =
           ser_written d @ (command @ checksum command) # rest"
proof (induction "2 - count" arbitrary: count d)
  case 0
  obtain r d' where sw: "send_and_wait command d = (r, d')" by force
  obtain k where k: "ser_written d' =
      ser_written d @ (command @ checksum command) # replicate k status_query"
    using send_and_wait_written_open [OF "0.prems", of command] sw by auto
  have "\<not> count < 2" using "0.hyps" by simp
  then have "snd (executeCommand command count d) = d'"
    using sw by (subst executeCommand_unfold) (auto split: sum.splits)
  then show ?case using k by auto
next
  case (Suc n)
  obtain r d' where sw: "send_and_wait command d = (r, d')" by force
  obtain k where k: "ser_written d' =
      ser_written d @ (command @ checksum command) # replicate k status_query"
    using send_and_wait_written_open [OF Suc.prems, of command] sw by auto
  have o: "ser_is_open d'" using send_and_wait_is_open [of command d] sw Suc.prems by simp
  have c: "count < 2" using Suc.hyps by simp
  show ?case
  proof (cases "\<exists>a. r = Inr a \<and> a \<noteq> [0x02]")
    case True
    then obtain a where a: "r = Inr a" "a \<noteq> [0x02]" by blast
    have eq: "executeCommand command count d = executeCommand command (count + 1) d'"
      using sw a c by (subst executeCommand_unfold) simp
    have "n = 2 - (count + 1)" using Suc.hyps by simp
    from Suc.hyps(1) [OF this o]
    obtain rest where "ser_written (snd (executeCommand command (count + 1) d')) =
           ser_written d' @ (command @ checksum command) # rest" by blast
    then show ?thesis using eq k by auto
  next
    case False
    then have "snd (executeCommand command count d) = d'"
      using sw by (subst executeCommand_unfold) (auto split: sum.splits)
    then show ?thesis using k by auto
  qed
qed

lemma G1_first_frame:
  assumes "ser_is_open d"
      and "encodeValueMM (float_neg x) = Inr ex" and "encodeValueMM y = Inr ey"
      and "encodeValueMM z = Inr ez" and "encodeFeedrate f = Inr ef"
  shows "\<exists>rest. ser_written (snd (G1 x y z f d)) =
           ser_written d @
           (([0x40, 0x4D] @ ex @ ey @ ez @ ef @ replicate 7 0) @
            checksum ([0x40, 0x4D] @ ex @ ey @ ez @ ef @ replicate 7 0)) # rest"
proof -
  let ?c = "[0x40, 0x4D] @ ex @ ey @ ez @ ef @ replicate 7 0"
  have "G1 x y z f d = executeCommand ?c 0 d"
    using assms(2-5) by (simp add: G1_def)
  then show ?thesis
    using executeCommand_written [OF assms(1), of ?c 0] by simp
qed

lemma G0_first_frame:
  assumes "ser_is_open d"
      and "encodeValueMM (float_neg x) = Inr ex" and "encodeValueMM y = Inr ey"
      and "encodeValueMM z = Inr ez"
  shows "\<exists>rest. ser_written (snd (G0 x y z d)) =
           ser_written d @
           (([0x40, 0x4E] @ ex @ ey @ ez @ le_bytes 2 1250 @ [0xDB, 0x00] @ replicate 5 0) @
            checksum ([0x40, 0x4E] @ ex @ ey @ ez @ le_bytes 2 1250 @ [0xDB, 0x00] @ replicate 5 0)) # rest"
proof -
  let ?c = "[0x40, 0x4E] @ ex @ ey @ ez @ le_bytes 2 1250 @ [0xDB, 0x00] @ replicate 5 0"
  have "encodeFeedrate PInf = Inr (le_bytes 2 1250)" by code_simp
  then have "G0 x y z d = executeCommand ?c 0 d"
    using assms(2-4) by (simp add: G0_def)
  then show ?thesis
    using executeCommand_written [OF assms(1), of ?c 0] by simp
qed

section \<open>Lemmas on the modal translator\<close>

lemma applyWords_Nil: "applyWords [] s = s"
  by (simp add: applyWords_def)

lemma applyWords_Cons: "applyWords (w # ws) s = applyWords ws (applyWord w s)"
  by (simp add: applyWords_def)

lemma applyWord_frame:
  "device (applyWord w s) = device s"
  "mode (applyWord w s) = mode s"
  "offsetX (applyWord w s) = offsetX s"
  "offsetY (applyWord w s) = offsetY s"
  "offsetZ (applyWord w s) = offsetZ s"
  "spindleOn (applyWord w s) = spindleOn s"
  "absolutepositionmode (applyWord w s) = absolutepositionmode s"
  by (simp_all add: applyWord_def Let_def)

lemma applyWords_frame:
  "device (applyWords ws s) = device s"
  "mode (applyWords ws s) = mode s"
  "offsetX (applyWords ws s) = offsetX s"
  "offsetY (applyWords ws s) = offsetY s"
  "offsetZ (applyWords ws s) = offsetZ s"
  "spindleOn (applyWords ws s) = spindleOn s"
  "absolutepositionmode (applyWords ws s) = absolutepositionmode s"
  by (induction ws arbitrary: s; simp add: applyWords_Nil applyWords_Cons applyWord_frame)+



lemma executeGCode_no_fault:
  "executeGCode_try gcode s = (r, s1) \<Longrightarrow> \<not> is_SerialException r \<Longrightarrow>
   executeGCode gcode s = Some (r, s1)"
  by (subst executeGCode.simps) simp

lemma executeGCode_fault:
  "executeGCode_try gcode s = (r, s1) \<Longrightarrow> is_SerialException r \<Longrightarrow>
   executeGCode gcode s =
     (case executeGCode_except s1 of
        None \<Rightarrow> None
      | Some (Some e, s2) \<Rightarrow> Some (Some e, s2)
      | Some (None, s2) \<Rightarrow> executeGCode gcode s2)"
  by (subst executeGCode.simps) simp

lemma executeGCode_try_linear:
  assumes "gtype gcode = GCodeLinearMove"
  shows "executeGCode_try gcode s0 =
     (let s = applyWords (params gcode) s0;
          f = (if float_gt (feedrate s) (Fin 1620) then Fin 1620 else feedrate s)
      in call_device
           (G1 (float_add (posX s) (offsetX s)) (float_add (posY s) (offsetY s))
               (float_add (posZ s) (offsetZ s)) f)
           (\<lambda>s'. s'\<lparr>mode := GCodeLinearMove\<rparr>) (s\<lparr>feedrate := f\<rparr>))"
  using assms by (simp add: executeGCode_try_def Let_def)




lemma call_device_device:
  assumes "\<And>x. device (after x) = device x"
  shows "device (snd (call_device method after s)) = snd (method (device s))"
  using assms by (simp add: call_device_def split: prod.splits option.splits)

lemma call_device_feedrate:
  assumes "\<And>x. feedrate (after x) = feedrate x"
  shows "feedrate (snd (call_device method after s)) = feedrate s"
  using assms by (simp add: call_device_def split: prod.splits option.splits)



lemma call_device_raise:
  assumes "call_device method after s = (Some e, s1)"
  shows "\<exists>d. s1 = s\<lparr>device := d\<rparr>"
  using assms by (auto simp: call_device_def split: prod.splits option.splits)

lemma executeGCode_try_raise:
  assumes "executeGCode_try gcode s = (Some e, s1)"
  shows "gtype gcode \<noteq> GCodeFeedRate
       \<and> (\<exists>d. s1 = (applyWords (params gcode) s)\<lparr>device := d\<rparr>
              \<or> s1 = (applyWords (params gcode) s)\<lparr>feedrate := Fin 1620, device := d\<rparr>)"
proof -
  have "gtype gcode \<noteq> GCodeFeedRate"
    using assms by (auto simp: executeGCode_try_def Let_def)
  moreover have "\<exists>d. s1 = (applyWords (params gcode) s)\<lparr>device := d\<rparr>
              \<or> s1 = (applyWords (params gcode) s)\<lparr>feedrate := Fin 1620, device := d\<rparr>"
    using assms
    by (auto simp: executeGCode_try_def Let_def split: if_splits dest!: call_device_raise)
  ultimately show ?thesis by blast
qed

lemma executeGCode_try_raise_fields:
  assumes "executeGCode_try gcode s = (Some e, s1)"
  shows "posX s1 = posX (applyWords (params gcode) s)"
    and "posY s1 = posY (applyWords (params gcode) s)"
    and "posZ s1 = posZ (applyWords (params gcode) s)"
    and "spindleOn s1 = spindleOn s"
    and "absolutepositionmode s1 = absolutepositionmode s"
    and "offsetX s1 = offsetX s" and "offsetY s1 = offsetY s" and "offsetZ s1 = offsetZ s"
    and "mode s1 = mode s"
  using executeGCode_try_raise [OF assms] by (auto simp: applyWords_frame)

lemma executeGCode_try_position:
  assumes "executeGCode_try gcode s = (r, s1)" and "gtype gcode \<noteq> GCodeFeedRate"
  shows "posX s1 = posX (applyWords (params gcode) s)
       \<and> posY s1 = posY (applyWords (params gcode) s)
       \<and> posZ s1 = posZ (applyWords (params gcode) s)"
  using assms
  by (auto simp: executeGCode_try_def Let_def call_device_def
           split: if_splits prod.splits option.splits)

lemma applyWord_posX_cong:
  assumes "posX s = posX s'" and "absolutepositionmode s = absolutepositionmode s'"
  shows "posX (applyWord w s) = posX (applyWord w s')"
  using assms by (simp add: applyWord_def Let_def)

lemma applyWord_posY_cong:
  assumes "posY s = posY s'" and "absolutepositionmode s = absolutepositionmode s'"
  shows "posY (applyWord w s) = posY (applyWord w s')"
  using assms by (simp add: applyWord_def Let_def)

lemma applyWord_posZ_cong:
  assumes "posZ s = posZ s'" and "absolutepositionmode s = absolutepositionmode s'"
  shows "posZ (applyWord w s) = posZ (applyWord w s')"
  using assms by (simp add: applyWord_def Let_def)

lemma applyWords_posX_cong:
  "posX s = posX s' \<Longrightarrow> absolutepositionmode s = absolutepositionmode s' \<Longrightarrow>
   posX (applyWords ws s) = posX (applyWords ws s')"
proof (induction ws arbitrary: s s')
  case Nil
  then show ?case by (simp add: applyWords_Nil)
next
  case (Cons w ws)
  show ?case
    unfolding applyWords_Cons
  proof (rule Cons.IH)
    show "posX (applyWord w s) = posX (applyWord w s')"
      by (rule applyWord_posX_cong) (rule Cons.prems)+
    show "absolutepositionmode (applyWord w s) = absolutepositionmode (applyWord w s')"
      using Cons.prems(2) by (simp add: applyWord_frame)
  qed
qed

lemma applyWords_posY_cong:
  "posY s = posY s' \<Longrightarrow> absolutepositionmode s = absolutepositionmode s' \<Longrightarrow>
   posY (applyWords ws s) = posY (applyWords ws s')"
proof (induction ws arbitrary: s s')
  case Nil
  then show ?case by (simp add: applyWords_Nil)
next
  case (Cons w ws)
  show ?case
    unfolding applyWords_Cons
  proof (rule Cons.IH)
    show "posY (applyWord w s) = posY (applyWord w s')"
      by (rule applyWord_posY_cong) (rule Cons.prems)+
    show "absolutepositionmode (applyWord w s) = absolutepositionmode (applyWord w s')"
      using Cons.prems(2) by (simp add: applyWord_frame)
  qed
qed

lemma applyWords_posZ_cong:
  "posZ s = posZ s' \<Longrightarrow> absolutepositionmode s = absolutepositionmode s' \<Longrightarrow>
   posZ (applyWords ws s) = posZ (applyWords ws s')"
proof (induction ws arbitrary: s s')
  case Nil
  then show ?case by (simp add: applyWords_Nil)
next
  case (Cons w ws)
  show ?case
    unfolding applyWords_Cons
  proof (rule Cons.IH)
    show "posZ (applyWord w s) = posZ (applyWord w s')"
      by (rule applyWord_posZ_cong) (rule Cons.prems)+
    show "absolutepositionmode (applyWord w s) = absolutepositionmode (applyWord w s')"
      using Cons.prems(2) by (simp add: applyWord_frame)
  qed
qed

lemma applyWords_incremental:
  "\<not> absolutepositionmode s \<Longrightarrow>
   posX (applyWords ws s) =
     foldl float_add (posX s) (map word_value (filter (\<lambda>w. letter w = CHR ''X'') ws))
   \<and> posY (applyWords ws s) =
     foldl float_add (posY s) (map word_value (filter (\<lambda>w. letter w = CHR ''Y'') ws))
   \<and> posZ (applyWords ws s) =
     foldl float_add (posZ s) (map word_value (filter (\<lambda>w. letter w = CHR ''Z'') ws))"
proof (induction ws arbitrary: s)
  case Nil
  then show ?case by (simp add: applyWords_Nil)
next
  case (Cons w ws)
  have "\<not> absolutepositionmode (applyWord w s)"
    using Cons.prems by (simp add: applyWord_frame)
  from Cons.IH [OF this] show ?case
    using Cons.prems by (simp add: applyWords_Cons applyWord_def Let_def)
qed

lemma executeGCode_except_fields:
  assumes "executeGCode_except s1 = Some (r, s2)"
  shows "posX s2 = posX s1 \<and> posY s2 = posY s1 \<and> posZ s2 = posZ s1
       \<and> offsetX s2 = float_neg (posX s1) \<and> offsetY s2 = float_neg (posY s1)
       \<and> offsetZ s2 = float_neg (posZ s1)
       \<and> absolutepositionmode s2 = absolutepositionmode s1
       \<and> spindleOn s2 = spindleOn s1 \<and> feedrate s2 = feedrate s1 \<and> mode s2 = mode s1"
  using assms
  by (auto simp: executeGCode_except_def Let_def call_device_def
           split: option.splits if_splits prod.splits)


section \<open>Linear moves and the feed rate limit\<close>

text \<open>
  C8. A linear move hands \<^verbatim>\<open>G1\<close> the feed rate 1620 when the current feed rate, after
  the command's words were applied, exceeds 1620, and the current feed rate unchanged
  otherwise; the translator's own feed rate is set to the same value. When the port is
  open and the coordinates and that feed rate encode, the next frame on the wire is the
  linear-move frame carrying the encoded feed rate; 1620 encodes as 2085.
\<close>

theorem linear_move_feedrate_clamp:
  assumes "gtype gcode = GCodeLinearMove"
  shows "(let s = applyWords (params gcode) s0;
              f = (if float_gt (feedrate s) (Fin 1620) then Fin 1620 else feedrate s)
          in executeGCode_try gcode s0 =
               call_device
                 (G1 (float_add (posX s) (offsetX s)) (float_add (posY s) (offsetY s))
                     (float_add (posZ s) (offsetZ s)) f)
                 (\<lambda>s'. s'\<lparr>mode := GCodeLinearMove\<rparr>) (s\<lparr>feedrate := f\<rparr>)
             \<and> feedrate (snd (executeGCode_try gcode s0)) = f
             \<and> (ser_is_open (device s0)
                  \<and> encodeValueMM (float_neg (float_add (posX s) (offsetX s))) = Inr ex
                  \<and> encodeValueMM (float_add (posY s) (offsetY s)) = Inr ey
                  \<and> encodeValueMM (float_add (posZ s) (offsetZ s)) = Inr ez
                  \<and> encodeFeedrate f = Inr ef \<longrightarrow>
                 (\<exists>rest. ser_written (device (snd (executeGCode_try gcode s0))) =
                    ser_written (device s0) @
                    (([0x40, 0x4D] @ ex @ ey @ ez @ ef @ replicate 7 0) @
                     checksum ([0x40, 0x4D] @ ex @ ey @ ez @ ef @ replicate 7 0)) # rest)))
         \<and> encodeFeedrate (Fin 1620) = Inr (le_bytes 2 2085)"
proof -
  define s where "s = applyWords (params gcode) s0"
  define f where "f = (if float_gt (feedrate s) (Fin 1620) then Fin 1620 else feedrate s)"
  let ?x = "float_add (posX s) (offsetX s)"
  let ?y = "float_add (posY s) (offsetY s)"
  let ?z = "float_add (posZ s) (offsetZ s)"
  have tr: "executeGCode_try gcode s0 =
      call_device (G1 ?x ?y ?z f) (\<lambda>s'. s'\<lparr>mode := GCodeLinearMove\<rparr>) (s\<lparr>feedrate := f\<rparr>)"
    using executeGCode_try_linear [OF assms, of s0] by (simp add: Let_def s_def f_def)
  have feed: "feedrate (snd (executeGCode_try gcode s0)) = f"
    by (simp add: tr call_device_feedrate)
  have dev: "device (snd (executeGCode_try gcode s0)) = snd (G1 ?x ?y ?z f (device s0))"
    by (simp add: tr call_device_device s_def applyWords_frame)
  have wire: "\<exists>rest. ser_written (device (snd (executeGCode_try gcode s0))) =
                    ser_written (device s0) @
                    (([0x40, 0x4D] @ ex @ ey @ ez @ ef @ replicate 7 0) @
                     checksum ([0x40, 0x4D] @ ex @ ey @ ez @ ef @ replicate 7 0)) # rest"
    if "ser_is_open (device s0)" "encodeValueMM (float_neg ?x) = Inr ex"
       "encodeValueMM ?y = Inr ey" "encodeValueMM ?z = Inr ez" "encodeFeedrate f = Inr ef"
    using G1_first_frame [OF that] dev by simp
  have enc: "encodeFeedrate (Fin 1620) = Inr (le_bytes 2 2085)" by code_simp
  show ?thesis
    unfolding Let_def s_def [symmetric] f_def [symmetric]
    using tr feed wire enc by blast
qed

theorem linear_move_feedrate_clamp_witness:
  "gtype example_move = GCodeLinearMove
   \<and> float_gt
         (feedrate (applyWords (params example_move)
            ((init (scripted_device []))\<lparr>feedrate := Fin 2000\<rparr>)))
         (Fin 1620)
   \<and> feedrate (snd (executeGCode_try example_move
         ((init (scripted_device []))\<lparr>feedrate := Fin 2000\<rparr>))) = Fin 1620
   \<and> (\<exists>rest. ser_written (device (snd (executeGCode_try example_move
           ((init (scripted_device []))\<lparr>feedrate := Fin 2000\<rparr>)))) =
         ser_written (device ((init (scripted_device []))\<lparr>feedrate := Fin 2000\<rparr>)) @
         (([0x40, 0x4D] @ [0x66, 0xFD, 0xFF, 0xFF] @ [0, 0, 0, 0] @ [0, 0, 0, 0] @
           le_bytes 2 2085 @ replicate 7 0) @
          checksum ([0x40, 0x4D] @ [0x66, 0xFD, 0xFF, 0xFF] @ [0, 0, 0, 0] @ [0, 0, 0, 0] @
           le_bytes 2 2085 @ replicate 7 0)) # rest)"
proof -
  let ?start = "(init (scripted_device []))\<lparr>feedrate := Fin 2000\<rparr>"
  let ?st = "applyWords (params example_move) ?start"
  have h: "gtype example_move = GCodeLinearMove" by (simp add: example_move_def)
  have gt: "float_gt (feedrate ?st) (Fin 1620)" by code_simp
  have op: "ser_is_open (device ?start)" by code_simp
  have ex: "encodeValueMM (float_neg (float_add (posX ?st) (offsetX ?st))) =
              Inr [0x66, 0xFD, 0xFF, 0xFF]"
    by code_simp
  have ey: "encodeValueMM (float_add (posY ?st) (offsetY ?st)) = Inr [0, 0, 0, 0]"
    by code_simp
  have ez: "encodeValueMM (float_add (posZ ?st) (offsetZ ?st)) = Inr [0, 0, 0, 0]"
    by code_simp
  have ef: "encodeFeedrate (Fin 1620) = Inr (le_bytes 2 2085)" by code_simp
  have cl: "(if float_gt (feedrate ?st) (Fin 1620) then Fin 1620 else feedrate ?st) = Fin 1620"
    using gt by simp
  note t = linear_move_feedrate_clamp
    [OF h, of ?start "[0x66, 0xFD, 0xFF, 0xFF]" "[0, 0, 0, 0]" "[0, 0, 0, 0]" "le_bytes 2 2085",
     unfolded Let_def cl]
  from t have feed: "feedrate (snd (executeGCode_try example_move ?start)) = Fin 1620"
    by blast
  from t op ex ey ez ef
  have wire: "\<exists>rest. ser_written (device (snd (executeGCode_try example_move ?start))) =
         ser_written (device ?start) @
         (([0x40, 0x4D] @ [0x66, 0xFD, 0xFF, 0xFF] @ [0, 0, 0, 0] @ [0, 0, 0, 0] @
           le_bytes 2 2085 @ replicate 7 0) @
          checksum ([0x40, 0x4D] @ [0x66, 0xFD, 0xFF, 0xFF] @ [0, 0, 0, 0] @ [0, 0, 0, 0] @
           le_bytes 2 2085 @ replicate 7 0)) # rest"
    by blast
  show ?thesis using h gt feed wire by blast
qed

section \<open>Parameter words and the distance mode\<close>

text \<open>
  C5 (as amended). A word with letter X, Y or Z replaces the matching coordinate in absolute
  mode and is added to it in incremental mode, and changes nothing else. A word with letter
  F replaces the feed rate in both modes. Applying X10 and then X-3 from X = 0 gives X = 7 in
  incremental mode and X = -3 in absolute mode.
\<close>

theorem applyWord_by_distance_mode:
  "applyWord \<lparr>letter = CHR ''X'', word_value = v\<rparr> s =
     s\<lparr>posX := (if absolutepositionmode s then v else float_add (posX s) v)\<rparr>
   \<and> applyWord \<lparr>letter = CHR ''Y'', word_value = v\<rparr> s =
     s\<lparr>posY := (if absolutepositionmode s then v else float_add (posY s) v)\<rparr>
   \<and> applyWord \<lparr>letter = CHR ''Z'', word_value = v\<rparr> s =
     s\<lparr>posZ := (if absolutepositionmode s then v else float_add (posZ s) v)\<rparr>
   \<and> applyWord \<lparr>letter = CHR ''F'', word_value = v\<rparr> s = s\<lparr>feedrate := v\<rparr>
   \<and> posX (applyWords [\<lparr>letter = CHR ''X'', word_value = Fin 10\<rparr>,
                        \<lparr>letter = CHR ''X'', word_value = Fin (- 3)\<rparr>]
              (s\<lparr>absolutepositionmode := False, posX := Fin 0\<rparr>)) = Fin 7
   \<and> posX (applyWords [\<lparr>letter = CHR ''X'', word_value = Fin 10\<rparr>,
                        \<lparr>letter = CHR ''X'', word_value = Fin (- 3)\<rparr>]
              (s\<lparr>absolutepositionmode := True\<rparr>)) = Fin (- 3)"
  by (simp add: applyWord_def applyWords_def Let_def)

theorem applyWord_by_distance_mode_witness:
  "applyWord \<lparr>letter = CHR ''X'', word_value = Fin 5\<rparr>
     ((init (scripted_device []))\<lparr>absolutepositionmode := False, posX := Fin 2\<rparr>) =
   (init (scripted_device []))\<lparr>absolutepositionmode := False, posX := Fin 7\<rparr>
   \<and> applyWord \<lparr>letter = CHR ''F'', word_value = Fin 100\<rparr>
     ((init (scripted_device []))\<lparr>absolutepositionmode := False\<rparr>) =
   (init (scripted_device []))\<lparr>absolutepositionmode := False, feedrate := Fin 100\<rparr>"
  using applyWord_by_distance_mode
    [of "Fin 5" "(init (scripted_device []))\<lparr>absolutepositionmode := False, posX := Fin 2\<rparr>"]
    applyWord_by_distance_mode
    [of "Fin 100" "(init (scripted_device []))\<lparr>absolutepositionmode := False\<rparr>"]
  by (simp add: init_def)

text \<open>
  C5 as stated fails for the letter F: in incremental mode an F word is not added to the
  feed rate. With feed rate 300, F100 gives 100, not 400.
\<close>

theorem applyWord_F_incremental_not_added:
  "feedrate (applyWord \<lparr>letter = CHR ''F'', word_value = Fin 100\<rparr>
     ((init (scripted_device []))\<lparr>absolutepositionmode := False\<rparr>)) = Fin 100
   \<and> float_add (feedrate ((init (scripted_device []))\<lparr>absolutepositionmode := False\<rparr>)) (Fin 100)
       = Fin 400
   \<and> feedrate (applyWord \<lparr>letter = CHR ''F'', word_value = Fin 100\<rparr>
     ((init (scripted_device []))\<lparr>absolutepositionmode := False\<rparr>)) \<noteq>
     float_add (feedrate ((init (scripted_device []))\<lparr>absolutepositionmode := False\<rparr>)) (Fin 100)"
  by (simp add: applyWord_def init_def Let_def)

section \<open>Encoding a feed rate\<close>




section \<open>Encoding a position\<close>




section \<open>Lines without a gcode\<close>



section \<open>A fresh translator\<close>



section \<open>Acknowledgements and retries\<close>

text \<open>
  C6. One round of \<^verbatim>\<open>executeCommand\<close> writes the frame, reads the acknowledgement byte and
  polls until the machine is ready (\<open>send_and_wait\<close>). A round that raises ends the command
  with that exception. An acknowledgement other than 0x02 starts another round with the
  same frame, but only twice: when the third acknowledgement in a row is wrong,
  \<^verbatim>\<open>executeCommand\<close> raises "wrong response from device" in the state the third round left,
  so nothing more is written. Over the three rounds the frame is on the wire exactly three
  times, each time followed by status queries only.
\<close>

theorem executeCommand_retries_twice:
  "(send_and_wait command d0 = (Inl e, d1) \<longrightarrow> executeCommand command 0 d0 = (Some e, d1))
   \<and> (send_and_wait command d0 = (Inr [0x02], d1) \<longrightarrow> executeCommand command 0 d0 = (None, d1))
   \<and> (send_and_wait command d0 = (Inr a1, d1) \<and> a1 \<noteq> [0x02]
        \<and> send_and_wait command d1 = (Inr [0x02], d2) \<longrightarrow>
       executeCommand command 0 d0 = (None, d2))
   \<and> (send_and_wait command d0 = (Inr a1, d1) \<and> a1 \<noteq> [0x02]
        \<and> send_and_wait command d1 = (Inr a2, d2) \<and> a2 \<noteq> [0x02]
        \<and> send_and_wait command d2 = (Inr a3, d3) \<longrightarrow>
       executeCommand command 0 d0 =
         (if a3 = [0x02] then (None, d3)
          else (Some (SerialException ''wrong response from device''), d3))
       \<and> (\<exists>k1 k2 k3. ser_written d3 =
             ser_written d0
             @ (command @ checksum command) # replicate k1 status_query
             @ (command @ checksum command) # replicate k2 status_query
             @ (command @ checksum command) # replicate k3 status_query))"
proof -
  have A: "executeCommand command 0 d0 = (Some e, d1)"
    if "send_and_wait command d0 = (Inl e, d1)"
    using that by (subst executeCommand_unfold) simp
  have B: "executeCommand command 0 d0 = (None, d1)"
    if "send_and_wait command d0 = (Inr [0x02], d1)"
    using that by (subst executeCommand_unfold) simp
  have C: "executeCommand command 0 d0 = (None, d2)"
    if "send_and_wait command d0 = (Inr a1, d1)" "a1 \<noteq> [0x02]"
       "send_and_wait command d1 = (Inr [0x02], d2)"
  proof -
    have "executeCommand command 0 d0 = executeCommand command 1 d1"
      using that(1,2) by (subst executeCommand_unfold) simp
    also have "\<dots> = (None, d2)"
      using that(3) by (subst executeCommand_unfold) simp
    finally show ?thesis .
  qed
  have D: "executeCommand command 0 d0 =
         (if a3 = [0x02] then (None, d3)
          else (Some (SerialException ''wrong response from device''), d3))"
    if "send_and_wait command d0 = (Inr a1, d1)" "a1 \<noteq> [0x02]"
       "send_and_wait command d1 = (Inr a2, d2)" "a2 \<noteq> [0x02]"
       "send_and_wait command d2 = (Inr a3, d3)"
  proof -
    have "executeCommand command 0 d0 = executeCommand command 1 d1"
      using that(1,2) by (subst executeCommand_unfold) simp
    also have "\<dots> = executeCommand command 2 d2"
      using that(3,4) by (subst executeCommand_unfold) (simp add: numeral_2_eq_2)
    also have "\<dots> = (if a3 = [0x02] then (None, d3)
          else (Some (SerialException ''wrong response from device''), d3))"
      using that(5) by (subst executeCommand_unfold) simp
    finally show ?thesis .
  qed
  have W: "\<exists>k1 k2 k3. ser_written d3 =
             ser_written d0
             @ (command @ checksum command) # replicate k1 status_query
             @ (command @ checksum command) # replicate k2 status_query
             @ (command @ checksum command) # replicate k3 status_query"
    if w1: "send_and_wait command d0 = (Inr a1, d1)"
      and w2: "send_and_wait command d1 = (Inr a2, d2)"
      and w3: "send_and_wait command d2 = (Inr a3, d3)"
  proof -
    obtain k1 where 1: "ser_written d1 =
        ser_written d0 @ (command @ checksum command) # replicate k1 status_query"
      using send_and_wait_written [OF w1] by blast
    obtain k2 where 2: "ser_written d2 =
        ser_written d1 @ (command @ checksum command) # replicate k2 status_query"
      using send_and_wait_written [OF w2] by blast
    obtain k3 where 3: "ser_written d3 =
        ser_written d2 @ (command @ checksum command) # replicate k3 status_query"
      using send_and_wait_written [OF w3] by blast
    have "ser_written d3 =
             ser_written d0
             @ (command @ checksum command) # replicate k1 status_query
             @ (command @ checksum command) # replicate k2 status_query
             @ (command @ checksum command) # replicate k3 status_query"
      using 1 2 3 by simp
    then show ?thesis by blast
  qed
  show ?thesis using A B C D W by blast
qed

theorem executeCommand_retries_twice_witness:
  "executeCommand example_command 0
     (scripted_device [[0x15], [0xEC], [0x15], [0xEC], [0x15], [0xEC], [0x02], [0xEC]]) =
   (Some (SerialException ''wrong response from device''),
    (scripted_device [[0x02], [0xEC]])
      \<lparr>ser_written :=
         [example_command @ checksum example_command, status_query,
          example_command @ checksum example_command, status_query,
          example_command @ checksum example_command, status_query]\<rparr>)"
proof -
  let ?d0 = "scripted_device [[0x15], [0xEC], [0x15], [0xEC], [0x15], [0xEC], [0x02], [0xEC]]"
  let ?m = "example_command @ checksum example_command"
  let ?d1 = "(scripted_device [[0x15], [0xEC], [0x15], [0xEC], [0x02], [0xEC]])
      \<lparr>ser_written := [?m, status_query]\<rparr>"
  let ?d2 = "(scripted_device [[0x15], [0xEC], [0x02], [0xEC]])
      \<lparr>ser_written := [?m, status_query, ?m, status_query]\<rparr>"
  let ?d3 = "(scripted_device [[0x02], [0xEC]])
      \<lparr>ser_written := [?m, status_query, ?m, status_query, ?m, status_query]\<rparr>"
  have h1: "send_and_wait example_command ?d0 = (Inr [0x15], ?d1)" by code_simp
  have h2: "send_and_wait example_command ?d1 = (Inr [0x15], ?d2)" by code_simp
  have h3: "send_and_wait example_command ?d2 = (Inr [0x15], ?d3)" by code_simp
  have n: "[0x15] \<noteq> [0x02 :: byte]" by simp
  from executeCommand_retries_twice
    [where command = example_command and ?d0.0 = ?d0 and ?d1.0 = ?d1 and ?d2.0 = ?d2
       and ?d3.0 = ?d3 and ?a1.0 = "[0x15]" and ?a2.0 = "[0x15]" and ?a3.0 = "[0x15]"]
    h1 h2 h3 n
  have "executeCommand example_command 0 ?d0 =
         (if [0x15] = [0x02 :: byte] then (None, ?d3)
          else (Some (SerialException ''wrong response from device''), ?d3))"
    by blast
  then show ?thesis using n by simp
qed

section \<open>Recovery from a serial exception\<close>




section \<open>The error after the last retry\<close>

text \<open>
  C2 (as amended). When the acknowledgement is still wrong in the round with count 2,
  \<^verbatim>\<open>executeCommand\<close> raises a \<^verbatim>\<open>serial.SerialException\<close> with the message "wrong response
  from device". It is the exception class the handler of \<^verbatim>\<open>executeGCode\<close> catches: the
  handler restarts the device, sets the offset and runs the same gcode again. When the
  recovery and the second attempt go through, \<^verbatim>\<open>executeGCode\<close> returns normally, with the
  offset at minus the position at the fault.
\<close>

theorem wrong_response_is_recovered:
  "(send_and_wait command d = (Inr a, d') \<and> a \<noteq> [0x02] \<longrightarrow>
      executeCommand command 2 d = (Some (SerialException ''wrong response from device''), d'))
   \<and> (executeGCode_try gcode s = (Some (SerialException ''wrong response from device''), s1) \<longrightarrow>
        executeGCode gcode s =
          (case executeGCode_except s1 of
             None \<Rightarrow> None
           | Some (Some e, s2) \<Rightarrow> Some (Some e, s2)
           | Some (None, s2) \<Rightarrow> executeGCode gcode s2))
   \<and> (executeGCode_try gcode s = (Some (SerialException ''wrong response from device''), s1)
        \<and> executeGCode_except s1 = Some (None, s2)
        \<and> executeGCode_try gcode s2 = (None, s3) \<longrightarrow>
        executeGCode gcode s = Some (None, s3)
        \<and> offsetX s3 = float_neg (posX s1) \<and> offsetY s3 = float_neg (posY s1)
        \<and> offsetZ s3 = float_neg (posZ s1))"
proof -
  have A: "executeCommand command 2 d = (Some (SerialException ''wrong response from device''), d')"
    if "send_and_wait command d = (Inr a, d')" "a \<noteq> [0x02]"
    using that by (subst executeCommand_unfold) simp
  have B: "executeGCode gcode s =
          (case executeGCode_except s1 of
             None \<Rightarrow> None
           | Some (Some e, s2) \<Rightarrow> Some (Some e, s2)
           | Some (None, s2) \<Rightarrow> executeGCode gcode s2)"
    if "executeGCode_try gcode s = (Some (SerialException ''wrong response from device''), s1)"
    using executeGCode_fault [OF that] by simp
  have C: "executeGCode gcode s = Some (None, s3)
        \<and> offsetX s3 = float_neg (posX s1) \<and> offsetY s3 = float_neg (posY s1)
        \<and> offsetZ s3 = float_neg (posZ s1)"
    if c1: "executeGCode_try gcode s = (Some (SerialException ''wrong response from device''), s1)"
      and c2: "executeGCode_except s1 = Some (None, s2)"
      and c3: "executeGCode_try gcode s2 = (None, s3)"
  proof -
    have "executeGCode gcode s = executeGCode gcode s2" using B [OF c1] c2 by simp
    also have "\<dots> = Some (None, s3)" using executeGCode_no_fault [OF c3] by simp
    finally have 1: "executeGCode gcode s = Some (None, s3)" .
    have "offsetX s3 = offsetX s2 \<and> offsetY s3 = offsetY s2 \<and> offsetZ s3 = offsetZ s2"
      using c3
      by (auto simp: executeGCode_try_def Let_def call_device_def applyWords_frame applyWord_frame
               split: if_splits prod.splits option.splits)
    then show ?thesis using 1 executeGCode_except_fields [OF c2] by simp
  qed
  show ?thesis using A B C by blast
qed

theorem wrong_response_is_recovered_witness:
  "executeCommand example_command 2 (scripted_device [[0x15], [0xEC], [0x02], [0xEC]]) =
     (Some (SerialException ''wrong response from device''),
      (scripted_device [[0x02], [0xEC]])\<lparr>ser_written := [spindle_on_frame, status_query]\<rparr>)
   \<and> executeGCode example_move
        (init (scripted_device
           [[0x15], [0xEC], [0x15], [0xEC], [0x15], [0xEC], reset_ok, [0x55], [],
            [0x02], [0xEC]])) =
       Some (None,
         (init ((scripted_device [])
             \<lparr>ser_written := [linear_frame_X10, status_query, linear_frame_X10, status_query,
                               linear_frame_X10, status_query, COM_RESET, [0xAA],
                               linear_frame_X0, status_query]\<rparr>))
           \<lparr>posX := Fin 10, offsetX := Fin (- 10)\<rparr>)"
proof -
  let ?d = "scripted_device [[0x15], [0xEC], [0x02], [0xEC]]"
  let ?d' = "(scripted_device [[0x02], [0xEC]])\<lparr>ser_written := [spindle_on_frame, status_query]\<rparr>"
  let ?start = "init (scripted_device
           [[0x15], [0xEC], [0x15], [0xEC], [0x15], [0xEC], reset_ok, [0x55], [],
            [0x02], [0xEC]])"
  let ?s1 = "(init ((scripted_device [reset_ok, [0x55], [], [0x02], [0xEC]])
             \<lparr>ser_written := [linear_frame_X10, status_query, linear_frame_X10, status_query,
                               linear_frame_X10, status_query]\<rparr>))\<lparr>posX := Fin 10\<rparr>"
  let ?s2 = "(init ((scripted_device [[0x02], [0xEC]])
             \<lparr>ser_written := [linear_frame_X10, status_query, linear_frame_X10, status_query,
                               linear_frame_X10, status_query, COM_RESET, [0xAA]]\<rparr>))
               \<lparr>posX := Fin 10, offsetX := Fin (- 10)\<rparr>"
  let ?s3 = "(init ((scripted_device [])
             \<lparr>ser_written := [linear_frame_X10, status_query, linear_frame_X10, status_query,
                               linear_frame_X10, status_query, COM_RESET, [0xAA],
                               linear_frame_X0, status_query]\<rparr>))
           \<lparr>posX := Fin 10, offsetX := Fin (- 10)\<rparr>"
  have a1: "send_and_wait example_command ?d = (Inr [0x15], ?d')" by code_simp
  have a2: "[0x15] \<noteq> [0x02 :: byte]" by simp
  have b1: "executeGCode_try example_move ?start =
      (Some (SerialException ''wrong response from device''), ?s1)" by code_simp
  have b2: "executeGCode_except ?s1 = Some (None, ?s2)" by code_simp
  have b3: "executeGCode_try example_move ?s2 = (None, ?s3)" by code_simp
  note t = wrong_response_is_recovered
    [where command = example_command and d = ?d and a = "[0x15]" and d' = ?d'
       and gcode = example_move and s = ?start and ?s1.0 = ?s1 and ?s2.0 = ?s2 and ?s3.0 = ?s3]
  from t a1 a2 have A: "executeCommand example_command 2 ?d =
     (Some (SerialException ''wrong response from device''), ?d')" by blast
  from t b1 b2 b3 have B: "executeGCode example_move ?start = Some (None, ?s3)" by blast
  show ?thesis using A B by blast
qed

text \<open>
  C2 as stated fails: three wrong acknowledgements on \<^verbatim>\<open>G1 X10\<close> make \<^verbatim>\<open>executeCommand\<close>
  raise, and \<^verbatim>\<open>executeGCode\<close> answers with the reset frame, the firmware and a second
  attempt, then returns normally, and so does \<^verbatim>\<open>parseLine\<close> on the line \<^verbatim>\<open>G1 X10\<close>.
\<close>

theorem wrong_response_not_surfaced:
  "fst (executeGCode_try example_move
        (init (scripted_device
           [[0x15], [0xEC], [0x15], [0xEC], [0x15], [0xEC], reset_ok, [0x55], [],
            [0x02], [0xEC]]))) = Some (SerialException ''wrong response from device'')
   \<and> map_option (\<lambda>r. (fst r, ser_written (device (snd r))))
        (executeGCode example_move
          (init (scripted_device
             [[0x15], [0xEC], [0x15], [0xEC], [0x15], [0xEC], reset_ok, [0x55], [],
              [0x02], [0xEC]]))) =
       Some (None,
             [linear_frame_X10, status_query, linear_frame_X10, status_query,
              linear_frame_X10, status_query, COM_RESET, [0xAA],
              linear_frame_X0, status_query])
   \<and> map_option fst
        (parseLine example_lib \<lparr>modal_params = [], gcodes = [example_move]\<rparr>
          (init (scripted_device
             [[0x15], [0xEC], [0x15], [0xEC], [0x15], [0xEC], reset_ok, [0x55], [],
              [0x02], [0xEC]]))) =
       Some None"
  by code_simp

section \<open>Words applied twice\<close>

text \<open>
  C9. Let the \<^verbatim>\<open>try\<close> part raise a \<^verbatim>\<open>serial.SerialException\<close>, the handler go through, and
  the second attempt end without such an exception. The position the words of the gcode
  gave before the fault is still there after the handler, and the second attempt applies
  the same words to it: the final position is that of the words applied twice. In
  incremental mode each coordinate has grown by the values of its words two times.
\<close>

theorem recovery_reapplies_words:
  assumes "executeGCode_try gcode s = (Some (SerialException err), s1)"
      and "executeGCode_except s1 = Some (None, s2)"
      and "executeGCode_try gcode s2 = (r, s3)" and "\<not> is_SerialException r"
  shows "executeGCode gcode s = Some (r, s3)
       \<and> posX s1 = posX (applyWords (params gcode) s)
       \<and> posY s1 = posY (applyWords (params gcode) s)
       \<and> posZ s1 = posZ (applyWords (params gcode) s)
       \<and> posX s2 = posX s1 \<and> posY s2 = posY s1 \<and> posZ s2 = posZ s1
       \<and> posX s3 = posX (applyWords (params gcode) (applyWords (params gcode) s))
       \<and> posY s3 = posY (applyWords (params gcode) (applyWords (params gcode) s))
       \<and> posZ s3 = posZ (applyWords (params gcode) (applyWords (params gcode) s))
       \<and> (\<not> absolutepositionmode s \<longrightarrow>
            posX s3 =
              foldl float_add
                (foldl float_add (posX s)
                   (map word_value (filter (\<lambda>w. letter w = CHR ''X'') (params gcode))))
                (map word_value (filter (\<lambda>w. letter w = CHR ''X'') (params gcode)))
          \<and> posY s3 =
              foldl float_add
                (foldl float_add (posY s)
                   (map word_value (filter (\<lambda>w. letter w = CHR ''Y'') (params gcode))))
                (map word_value (filter (\<lambda>w. letter w = CHR ''Y'') (params gcode)))
          \<and> posZ s3 =
              foldl float_add
                (foldl float_add (posZ s)
                   (map word_value (filter (\<lambda>w. letter w = CHR ''Z'') (params gcode))))
                (map word_value (filter (\<lambda>w. letter w = CHR ''Z'') (params gcode))))"
proof -
  let ?ps = "params gcode"
  have "executeGCode gcode s = executeGCode gcode s2"
    using executeGCode_fault [OF assms(1)] assms(2) by simp
  also have "\<dots> = Some (r, s3)" by (rule executeGCode_no_fault [OF assms(3,4)])
  finally have res: "executeGCode gcode s = Some (r, s3)" .
  note f1 = executeGCode_try_raise_fields [OF assms(1)]
  note f2 = executeGCode_except_fields [OF assms(2)]
  have nf: "gtype gcode \<noteq> GCodeFeedRate"
    using executeGCode_try_raise [OF assms(1)] by blast
  note f3 = executeGCode_try_position [OF assms(3) nf]
  have am: "absolutepositionmode s2 = absolutepositionmode (applyWords ?ps s)"
    using f1 f2 by (simp add: applyWords_frame)
  have x: "posX s3 = posX (applyWords ?ps (applyWords ?ps s))"
    using f1 f2 f3 am applyWords_posX_cong [of s2 "applyWords ?ps s" ?ps] by simp
  have y: "posY s3 = posY (applyWords ?ps (applyWords ?ps s))"
    using f1 f2 f3 am applyWords_posY_cong [of s2 "applyWords ?ps s" ?ps] by simp
  have z: "posZ s3 = posZ (applyWords ?ps (applyWords ?ps s))"
    using f1 f2 f3 am applyWords_posZ_cong [of s2 "applyWords ?ps s" ?ps] by simp
  have inc: "posX s3 =
              foldl float_add
                (foldl float_add (posX s)
                   (map word_value (filter (\<lambda>w. letter w = CHR ''X'') ?ps)))
                (map word_value (filter (\<lambda>w. letter w = CHR ''X'') ?ps))
          \<and> posY s3 =
              foldl float_add
                (foldl float_add (posY s)
                   (map word_value (filter (\<lambda>w. letter w = CHR ''Y'') ?ps)))
                (map word_value (filter (\<lambda>w. letter w = CHR ''Y'') ?ps))
          \<and> posZ s3 =
              foldl float_add
                (foldl float_add (posZ s)
                   (map word_value (filter (\<lambda>w. letter w = CHR ''Z'') ?ps)))
                (map word_value (filter (\<lambda>w. letter w = CHR ''Z'') ?ps))"
    if na: "\<not> absolutepositionmode s"
  proof -
    have na': "\<not> absolutepositionmode (applyWords ?ps s)"
      using na by (simp add: applyWords_frame)
    show ?thesis
      using x y z applyWords_incremental [OF na, of ?ps]
        applyWords_incremental [OF na', of ?ps]
      by simp
  qed
  show ?thesis using res f1(1-3) f2 x y z inc by blast
qed

theorem recovery_reapplies_words_witness:
  "\<not> absolutepositionmode
       ((init (scripted_device [[0x02], [], reset_ok, [0x55], [], [0x02], [0xEC]]))
          \<lparr>absolutepositionmode := False\<rparr>)
   \<and> posX ((init (scripted_device [[0x02], [], reset_ok, [0x55], [], [0x02], [0xEC]]))
          \<lparr>absolutepositionmode := False\<rparr>) = Fin 0
   \<and> executeGCode example_move
       ((init (scripted_device [[0x02], [], reset_ok, [0x55], [], [0x02], [0xEC]]))
          \<lparr>absolutepositionmode := False\<rparr>) =
       Some (None,
         (init ((scripted_device [])
             \<lparr>ser_written := [linear_frame_X10, status_query, COM_RESET, [0xAA],
                               linear_frame_X10, status_query]\<rparr>))
           \<lparr>absolutepositionmode := False, posX := Fin 20, offsetX := Fin (- 10)\<rparr>)
   \<and> posX (init ((scripted_device [])
             \<lparr>ser_written := [linear_frame_X10, status_query, COM_RESET, [0xAA],
                               linear_frame_X10, status_query]\<rparr>)
           \<lparr>absolutepositionmode := False, posX := Fin 20, offsetX := Fin (- 10)\<rparr>) =
       float_add (float_add (Fin 0) (Fin 10)) (Fin 10)"
proof -
  let ?start = "(init (scripted_device [[0x02], [], reset_ok, [0x55], [], [0x02], [0xEC]]))
          \<lparr>absolutepositionmode := False\<rparr>"
  let ?s1 = "(init ((scripted_device [reset_ok, [0x55], [], [0x02], [0xEC]])
             \<lparr>ser_written := [linear_frame_X10, status_query]\<rparr>))
           \<lparr>absolutepositionmode := False, posX := Fin 10\<rparr>"
  let ?s2 = "(init ((scripted_device [[0x02], [0xEC]])
             \<lparr>ser_written := [linear_frame_X10, status_query, COM_RESET, [0xAA]]\<rparr>))
           \<lparr>absolutepositionmode := False, posX := Fin 10, offsetX := Fin (- 10)\<rparr>"
  let ?s3 = "(init ((scripted_device [])
             \<lparr>ser_written := [linear_frame_X10, status_query, COM_RESET, [0xAA],
                               linear_frame_X10, status_query]\<rparr>))
           \<lparr>absolutepositionmode := False, posX := Fin 20, offsetX := Fin (- 10)\<rparr>"
  have h1: "executeGCode_try example_move ?start =
      (Some (SerialException ''device not responding''), ?s1)" by code_simp
  have h2: "executeGCode_except ?s1 = Some (None, ?s2)" by code_simp
  have h3: "executeGCode_try example_move ?s2 = (None, ?s3)" by code_simp
  have h4: "\<not> is_SerialException None" by simp
  have na: "\<not> absolutepositionmode ?start" by simp
  have p0: "posX ?start = Fin 0" by (simp add: init_def)
  have dx: "map word_value (filter (\<lambda>w. letter w = CHR ''X'') (params example_move)) = [Fin 10]"
    by (simp add: example_move_def)
  note t = recovery_reapplies_words [OF h1 h2 h3 h4, unfolded dx p0]
  from t have r: "executeGCode example_move ?start = Some (None, ?s3)" by blast
  from t na have "posX ?s3 = foldl float_add (foldl float_add (Fin 0) [Fin 10]) [Fin 10]"
    by blast
  then have x: "posX ?s3 = float_add (float_add (Fin 0) (Fin 10)) (Fin 10)" by simp
  show ?thesis using na p0 r x by blast
qed

end
